theory Spec2Isabelle
  imports Complex_Main "HOL-Library.Multiset"
begin

section \<open>Mission configuration model\<close>

text \<open>
  A shallow embedding of \<^verbatim>\<open>server/auvsi_suas/models/mission_config.py\<close>: the class
  \<^verbatim>\<open>MissionConfig\<close> with its methods \<^verbatim>\<open>satisfied_waypoints\<close>,
  \<^verbatim>\<open>evaluate_teams\<close> and \<^verbatim>\<open>kml\<close>.

  A Python float is read as the \<^typ>\<open>real\<close> number that it stands for. Comparing
  two floats compares these numbers. Adding two floats rounds the sum, so Python's
  \<^verbatim>\<open>+\<close> on them is not the addition of \<^typ>\<open>real\<close>: it is the parameter
  \<open>float_add\<close> below, of which no law is assumed.
  Primary keys are \<^typ>\<open>nat\<close>, other integers \<^typ>\<open>int\<close>.
\<close>

subsection \<open>Rows of the sibling models\<close>

text \<open>
  The sibling model classes are imported by the module but defined elsewhere. Each is a
  record of the fields that \<^verbatim>\<open>mission_config.py\<close> reads: \<^verbatim>\<open>latitude\<close> and
  \<^verbatim>\<open>longitude\<close> of a \<^verbatim>\<open>GpsPosition\<close>; \<^verbatim>\<open>gps_position\<close> and \<^verbatim>\<open>altitude_msl\<close>
  of the aerial position that a waypoint and a telemetry log carry; \<^verbatim>\<open>pk\<close>,
  \<^verbatim>\<open>position\<close> and \<^verbatim>\<open>order\<close> of a \<^verbatim>\<open>Waypoint\<close>; \<^verbatim>\<open>uas_position\<close> of a
  \<^verbatim>\<open>UasTelemetry\<close> log; \<^verbatim>\<open>username\<close> and \<^verbatim>\<open>is_superuser\<close> of a \<^verbatim>\<open>User\<close>;
  \<^verbatim>\<open>pk\<close> of an obstacle. The field \<^verbatim>\<open>pk\<close> is prefixed by the name of its class,
  since a record field is a constant of the theory.
\<close>

record gps_position =
  latitude :: real
  longitude :: real

record aerial_position =
  gps_position :: gps_position
  altitude_msl :: real

record waypoint =
  waypoint_pk :: nat
  position :: aerial_position
  order :: int

record uas_telemetry =
  uas_telemetry_pk :: nat
  uas_position :: aerial_position
  uas_heading :: real

record user =
  user_pk :: nat
  username :: string
  is_superuser :: bool

text \<open>
  A stationary or a moving obstacle: its primary key and the rest of the row, which
  only the obstacle's own \<^verbatim>\<open>evaluate_collision_with_uas\<close> looks at.
\<close>

record 'v obstacle =
  obstacle_pk :: nat
  obstacle_row :: 'v

subsection \<open>The mission configuration\<close>

text \<open>
  The fields of \<^verbatim>\<open>MissionConfig\<close>. A foreign key to a \<^verbatim>\<open>GpsPosition\<close> is the row it
  points to; a many-to-many field is the list of its rows in the order in which
  \<^verbatim>\<open>.all()\<close> yields them; \<^verbatim>\<open>server_info\<close> is the key of the row it points to.
\<close>

record mission_config =
  mission_pk :: nat
  is_active :: bool
  home_pos :: gps_position
  mission_waypoints_dist_max :: real
  mission_waypoints :: "waypoint list"
  search_grid_points :: "waypoint list"
  emergent_last_known_pos :: gps_position
  off_axis_target_pos :: gps_position
  sric_pos :: gps_position
  ir_primary_target_pos :: gps_position
  ir_secondary_target_pos :: gps_position
  air_drop_pos :: gps_position
  server_info :: nat

text \<open>
  \<^verbatim>\<open>self.mission_waypoints.order_by('order')\<close>: the waypoints in ascending order of
  their \<^verbatim>\<open>order\<close> field. Rows of equal \<^verbatim>\<open>order\<close> come in the order the database
  chooses; the model keeps them in the order of \<^verbatim>\<open>.all()\<close>.
\<close>

definition order_by_order :: "waypoint list \<Rightarrow> waypoint list" where
  "order_by_order wps = sort_key order wps"

subsection \<open>The sibling models\<close>

text \<open>
  What \<^verbatim>\<open>mission_config.py\<close> calls on the sibling model classes. Their code is in
  other modules, so each is a parameter of the model, a function of its arguments and
  of the database contents at the time of the evaluation:
  \<^item> \<open>distance_to\<close>: the method \<^verbatim>\<open>distance_to\<close> of an aerial position;
  \<^item> \<open>str_position\<close>, \<open>str_waypoint\<close>: \<^verbatim>\<open>str(point)\<close> of a \<^verbatim>\<open>GpsPosition\<close> and of
    a \<^verbatim>\<open>Waypoint\<close>;
  \<^item> \<open>users_all\<close>, \<open>fly_zones_all\<close>, \<open>stationary_obstacles_all\<close>,
    \<open>moving_obstacles_all\<close>: the rows that \<^verbatim>\<open>objects.all()\<close> yields for \<^verbatim>\<open>User\<close>,
    \<^verbatim>\<open>FlyZone\<close>, \<^verbatim>\<open>StationaryObstacle\<close> and \<^verbatim>\<open>MovingObstacle\<close>;
  \<^item> \<open>flights\<close>: \<^verbatim>\<open>TakeoffOrLandingEvent.flights(user)\<close>, a list of time periods;
  \<^item> \<open>by_time_period\<close>, \<open>dedupe\<close>: the class methods of \<^verbatim>\<open>UasTelemetry\<close>; their
    result is iterated as a list of lists of logs, one per period;
  \<^item> \<open>out_of_bounds\<close>: \<^verbatim>\<open>FlyZone.out_of_bounds(fly_zones, logs)\<close>, in seconds;
  \<^item> \<open>server_info_rates\<close>, \<open>obstacle_rates\<close>: \<^verbatim>\<open>rates(user, flight_periods)\<close> of
    \<^verbatim>\<open>ServerInfoAccessLog\<close> and \<^verbatim>\<open>ObstacleAccessLog\<close>; \<open>uas_telemetry_rates\<close>:
    \<^verbatim>\<open>UasTelemetry.rates(user, flight_periods, time_period_logs=...)\<close>. The result is
    indexed at 0 and 1: a pair, each component a number or \<^verbatim>\<open>None\<close>;
  \<^item> \<open>stationary_collision\<close>, \<open>moving_collision\<close>: the method
    \<^verbatim>\<open>evaluate_collision_with_uas\<close> of the two obstacle classes.
  With them comes \<open>float_add\<close>, Python's \<^verbatim>\<open>+\<close> on the numbers that
  \<^verbatim>\<open>out_of_bounds\<close> returns: the addition of IEEE doubles, which rounds its result
  and is not associative. Its left argument is the running total, which starts as the
  integer 0.
  The time periods and the fly zones are only handed on, so their types are
  parameters.
\<close>

type_synonym rates = "real option \<times> real option"

record ('tp, 'fz, 'sv, 'mv) models =
  distance_to :: "aerial_position \<Rightarrow> aerial_position \<Rightarrow> real"
  str_position :: "gps_position \<Rightarrow> string"
  str_waypoint :: "waypoint \<Rightarrow> string"
  users_all :: "user list"
  fly_zones_all :: "'fz list"
  stationary_obstacles_all :: "'sv obstacle list"
  moving_obstacles_all :: "'mv obstacle list"
  flights :: "user \<Rightarrow> 'tp list"
  by_time_period :: "user \<Rightarrow> 'tp list \<Rightarrow> uas_telemetry list list"
  dedupe :: "uas_telemetry list list \<Rightarrow> uas_telemetry list list"
  out_of_bounds :: "'fz list \<Rightarrow> uas_telemetry list \<Rightarrow> real"
  server_info_rates :: "user \<Rightarrow> 'tp list \<Rightarrow> rates"
  obstacle_rates :: "user \<Rightarrow> 'tp list \<Rightarrow> rates"
  uas_telemetry_rates :: "user \<Rightarrow> 'tp list \<Rightarrow> uas_telemetry list list \<Rightarrow> rates"
  stationary_collision :: "'sv obstacle \<Rightarrow> uas_telemetry list \<Rightarrow> bool"
  moving_collision :: "'mv obstacle \<Rightarrow> uas_telemetry list \<Rightarrow> bool"
  float_add :: "real \<Rightarrow> real \<Rightarrow> real"

subsection \<open>\<^verbatim>\<open>satisfied_waypoints\<close>\<close>

text \<open>
  The inner loop of \<^verbatim>\<open>satisfied_waypoints\<close> for one waypoint: \<^verbatim>\<open>satisfied\<close> starts
  as \<^verbatim>\<open>False\<close>, and the first log whose distance to the waypoint is below the
  threshold sets it and leaves the loop. \<open>dmax\<close> is
  \<^verbatim>\<open>self.mission_waypoints_dist_max\<close>.
\<close>

fun waypoint_scan ::
  "('tp, 'fz, 'sv, 'mv) models \<Rightarrow> real \<Rightarrow> waypoint \<Rightarrow> uas_telemetry list \<Rightarrow> bool"
where
  "waypoint_scan M dmax wp [] = False"
| "waypoint_scan M dmax wp (uas_log # uas_logs) =
     (if distance_to M (uas_position uas_log) (position wp) < dmax then True
      else waypoint_scan M dmax wp uas_logs)"

text \<open>The outer loop: one boolean is appended to \<^verbatim>\<open>waypoints_satisfied\<close> per waypoint.\<close>

fun waypoints_loop ::
  "('tp, 'fz, 'sv, 'mv) models \<Rightarrow> real \<Rightarrow> uas_telemetry list \<Rightarrow>
   bool list \<Rightarrow> waypoint list \<Rightarrow> bool list"
where
  "waypoints_loop M dmax uas_logs waypoints_satisfied [] = waypoints_satisfied"
| "waypoints_loop M dmax uas_logs waypoints_satisfied (wp # wps) =
     waypoints_loop M dmax uas_logs
       (waypoints_satisfied @ [waypoint_scan M dmax wp uas_logs]) wps"

definition satisfied_waypoints ::
  "('tp, 'fz, 'sv, 'mv) models \<Rightarrow> mission_config \<Rightarrow> uas_telemetry list \<Rightarrow> bool list"
where
  "satisfied_waypoints M self uas_telemetry_logs =
     waypoints_loop M (mission_waypoints_dist_max self) uas_telemetry_logs []
       (order_by_order (mission_waypoints self))"

subsection \<open>\<^verbatim>\<open>evaluate_teams\<close>\<close>

text \<open>
  The evaluation data of one user is a dictionary with up to five string keys. It is
  a record with one optional field per key: \<open>None\<close> when the key is absent, so that
  the empty dictionary \<^verbatim>\<open>{}\<close> has every field \<open>None\<close>. The dictionary
  \<^verbatim>\<open>{'max': v, 'avg': w}\<close> always has both keys and is the record \<open>max_avg\<close>;
  \<^verbatim>\<open>interop_times\<close> is a map from the class name to it.
\<close>

record max_avg =
  rate_max :: "real option"
  rate_avg :: "real option"

record eval_data =
  waypoints_satisfied :: "(int \<rightharpoonup> bool) option"
  out_of_bounds_time :: "real option"
  interop_times :: "(string \<rightharpoonup> max_avg) option"
  stationary_obst_collision :: "(nat \<rightharpoonup> bool) option"
  moving_obst_collision :: "(nat \<rightharpoonup> bool) option"

definition empty_eval_data :: eval_data where
  "empty_eval_data =
     \<lparr>waypoints_satisfied = None, out_of_bounds_time = None, interop_times = None,
      stationary_obst_collision = None, moving_obst_collision = None\<rparr>"

text \<open>
  \<^verbatim>\<open>d.setdefault(key, default)\<close>, seen from the entry \<^verbatim>\<open>d.get(key)\<close>: the value
  that the dictionary holds under the key afterwards, which is also what the call
  returns.
\<close>

definition setdefault :: "'a option \<Rightarrow> 'a \<Rightarrow> 'a" where
  "setdefault entry dflt = (case entry of None \<Rightarrow> dflt | Some v \<Rightarrow> v)"

text \<open>
  \<^verbatim>\<open>for i, hit in enumerate(waypoints_hit): waypoints_keyed[i + 1] = hit\<close>, with
  the index \<open>i\<close> of the next element.
\<close>

fun waypoints_keyed_loop :: "(int \<rightharpoonup> bool) \<Rightarrow> int \<Rightarrow> bool list \<Rightarrow> (int \<rightharpoonup> bool)" where
  "waypoints_keyed_loop waypoints_keyed i [] = waypoints_keyed"
| "waypoints_keyed_loop waypoints_keyed i (hit # hits) =
     waypoints_keyed_loop (waypoints_keyed(i + 1 \<mapsto> hit)) (i + 1) hits"

text \<open>
  \<^verbatim>\<open>for logs in uas_period_logs: out_of_bounds_time += FlyZone.out_of_bounds(fly_zones, logs)\<close>
\<close>

fun out_of_bounds_loop ::
  "('tp, 'fz, 'sv, 'mv) models \<Rightarrow> 'fz list \<Rightarrow> real \<Rightarrow> uas_telemetry list list \<Rightarrow> real"
where
  "out_of_bounds_loop M fly_zones t [] = t"
| "out_of_bounds_loop M fly_zones t (logs # uas_period_logs) =
     out_of_bounds_loop M fly_zones (float_add M t (out_of_bounds M fly_zones logs))
       uas_period_logs"

text \<open>
  \<^verbatim>\<open>for obst in obstacles: collisions[obst.pk] = obst.evaluate_collision_with_uas(uas_logs)\<close>,
  where \<open>collide\<close> is the method of the obstacle's class.
\<close>

fun collisions_loop ::
  "('v obstacle \<Rightarrow> uas_telemetry list \<Rightarrow> bool) \<Rightarrow> uas_telemetry list \<Rightarrow>
   (nat \<rightharpoonup> bool) \<Rightarrow> 'v obstacle list \<Rightarrow> (nat \<rightharpoonup> bool)"
where
  "collisions_loop collide uas_logs collisions [] = collisions"
| "collisions_loop collide uas_logs collisions (obst # obsts) =
     collisions_loop collide uas_logs
       (collisions(obstacle_pk obst \<mapsto> collide obst uas_logs)) obsts"

text \<open>
  The body of the loop over the users, for a user who is not an administrator.
  \<open>eval_data\<close> is the dictionary that \<^verbatim>\<open>results.setdefault(user, {})\<close> returned; the
  result is that dictionary after the body. The two calls of the logger are left out.
\<close>

definition evaluate_user ::
  "('tp, 'fz, 'sv, 'mv) models \<Rightarrow> mission_config \<Rightarrow> user \<Rightarrow> eval_data \<Rightarrow> eval_data"
where
  "evaluate_user M self u eval_data =
     (let fly_zones = fly_zones_all M;
          stationary_obstacles = stationary_obstacles_all M;
          moving_obstacles = moving_obstacles_all M;
          flight_periods = flights M u;
          uas_period_logs = dedupe M (by_time_period M u flight_periods);
          uas_logs = concat uas_period_logs;
          waypoints_hit = satisfied_waypoints M self uas_logs;
          waypoints_keyed = waypoints_keyed_loop Map.empty 0 waypoints_hit;
          oob_time = out_of_bounds_loop M fly_zones 0 uas_period_logs;
          interop = setdefault (interop_times eval_data) Map.empty;
          server_info_times = server_info_rates M u flight_periods;
          obstacle_times = obstacle_rates M u flight_periods;
          uas_telemetry_times = uas_telemetry_rates M u flight_periods uas_period_logs;
          interop1 = interop(''server_info'' \<mapsto>
            \<lparr>rate_max = fst server_info_times, rate_avg = snd server_info_times\<rparr>);
          interop2 = interop1(''obst_info'' \<mapsto>
            \<lparr>rate_max = fst obstacle_times, rate_avg = snd obstacle_times\<rparr>);
          interop3 = interop2(''uas_telem'' \<mapsto>
            \<lparr>rate_max = fst uas_telemetry_times, rate_avg = snd uas_telemetry_times\<rparr>);
          stationary_collisions = collisions_loop (stationary_collision M) uas_logs
            (setdefault (stationary_obst_collision eval_data) Map.empty) stationary_obstacles;
          moving_collisions = collisions_loop (moving_collision M) uas_logs
            (setdefault (moving_obst_collision eval_data) Map.empty) moving_obstacles
      in eval_data
           \<lparr>waypoints_satisfied := Some waypoints_keyed,
            out_of_bounds_time := Some oob_time,
            interop_times := Some interop3,
            stationary_obst_collision := Some stationary_collisions,
            moving_obst_collision := Some moving_collisions\<rparr>)"

text \<open>
  The loop over the users. \<^verbatim>\<open>results\<close> is a dictionary keyed by the user; an
  administrator is skipped by \<^verbatim>\<open>continue\<close>. Django compares two rows of a table by
  their primary key, which the table keeps unique, so the rows of
  \<^verbatim>\<open>User.objects.all()\<close> are equal as keys exactly when they are equal as records.
\<close>

fun users_loop ::
  "('tp, 'fz, 'sv, 'mv) models \<Rightarrow> mission_config \<Rightarrow> (user \<rightharpoonup> eval_data) \<Rightarrow> user list \<Rightarrow>
   (user \<rightharpoonup> eval_data)"
where
  "users_loop M self results [] = results"
| "users_loop M self results (u # us) =
     (if is_superuser u then users_loop M self results us
      else users_loop M self
             (results(u \<mapsto> evaluate_user M self u (setdefault (results u) empty_eval_data))) us)"

definition evaluate_teams ::
  "('tp, 'fz, 'sv, 'mv) models \<Rightarrow> mission_config \<Rightarrow> (user \<rightharpoonup> eval_data)"
where
  "evaluate_teams M self = users_loop M self Map.empty (users_all M)"

subsection \<open>\<^verbatim>\<open>kml\<close>\<close>

text \<open>
  The part of the \<^verbatim>\<open>simplekml\<close> interface that \<^verbatim>\<open>kml\<close> uses. A container holds its
  features in the order of their creation. An attribute that was never assigned is
  \<open>None\<close>. A coordinate is the tuple that the method builds, of two or of three
  numbers. \<^verbatim>\<open>Color.changealphaint\<close> is kept as a constructor.
\<close>

datatype py_error = IndexError

datatype altitude_mode = Absolute

datatype color = Black | Green | Blue | Changealphaint int color

datatype coord = Coord2 real real | Coord3 real real real

record kml_point =
  point_name :: string
  point_coords :: "coord list"
  point_description :: "string option"
  point_altitudemode :: "altitude_mode option"
  point_extrude :: "int option"
  point_visibility :: "bool option"

record kml_linestring =
  linestring_name :: string
  linestring_coords :: "coord list"
  linestring_altitudemode :: "altitude_mode option"
  linestring_extrude :: "int option"
  linestring_linestyle_color :: "color option"
  linestring_polystyle_color :: "color option"

record kml_polygon =
  polygon_name :: string
  polygon_outerboundaryis :: "coord list"
  polygon_linestyle_color :: "color option"
  polygon_linestyle_width :: "int option"
  polygon_polystyle_color :: "color option"

datatype kml_feature =
    Point kml_point
  | Linestring kml_linestring
  | Polygon kml_polygon
  | Folder string "kml_feature list"

definition newpoint :: "string \<Rightarrow> coord list \<Rightarrow> kml_point" where
  "newpoint name coords =
     \<lparr>point_name = name, point_coords = coords, point_description = None,
      point_altitudemode = None, point_extrude = None, point_visibility = None\<rparr>"

definition newlinestring :: "string \<Rightarrow> kml_linestring" where
  "newlinestring name =
     \<lparr>linestring_name = name, linestring_coords = [], linestring_altitudemode = None,
      linestring_extrude = None, linestring_linestyle_color = None,
      linestring_polystyle_color = None\<rparr>"

definition newpolygon :: "string \<Rightarrow> kml_polygon" where
  "newpolygon name =
     \<lparr>polygon_name = name, polygon_outerboundaryis = [], polygon_linestyle_color = None,
      polygon_linestyle_width = None, polygon_polystyle_color = None\<rparr>"

text \<open>\<^verbatim>\<open>str(n)\<close> and \<^verbatim>\<open>'{}'.format(n)\<close> of a natural number: its decimal digits.\<close>

fun str_nat :: "nat \<Rightarrow> string" where
  "str_nat n =
     (if n < 10 then [char_of (48 + n)] else str_nat (n div 10) @ [char_of (48 + n mod 10)])"

declare str_nat.simps [simp del]

text \<open>
  The static points: the items of the dictionary \<^verbatim>\<open>locations\<close> in the order in
  which \<^verbatim>\<open>iteritems()\<close> yields them, and one point per item. The method is Python 2
  code (\<^verbatim>\<open>iteritems\<close>, \<^verbatim>\<open>unicode\<close>), where a dictionary is iterated in the order
  of the slots of its hash table and not in the order in which it is written. For these
  seven keys, inserted in the written order into a table that starts with 8 slots and
  is resized to 32, the hash function of CPython 2.7 for strings gives the order below.
\<close>

definition locations :: "mission_config \<Rightarrow> (string \<times> gps_position) list" where
  "locations self =
     [(''Emergent LKP'', emergent_last_known_pos self),
      (''Air Drop'', air_drop_pos self),
      (''IR Primary'', ir_primary_target_pos self),
      (''Home Position'', home_pos self),
      (''Off Axis'', off_axis_target_pos self),
      (''IR Secondary'', ir_secondary_target_pos self),
      (''SRIC'', sric_pos self)]"

definition static_point ::
  "('tp, 'fz, 'sv, 'mv) models \<Rightarrow> string \<times> gps_position \<Rightarrow> kml_feature"
where
  "static_point M item =
     (case item of (key, point) \<Rightarrow>
        let gps = Coord2 (longitude point) (latitude point);
            wp = newpoint key [gps]
        in Point (wp\<lparr>point_description := Some (str_position M point)\<rparr>))"

text \<open>
  The loop over \<^verbatim>\<open>self.mission_waypoints.all()\<close>: the state is the list
  \<^verbatim>\<open>waypoints\<close>, the counter \<^verbatim>\<open>waypoint_num\<close> and the markers that the folder has
  received.
\<close>

fun waypoints_kml_loop ::
  "('tp, 'fz, 'sv, 'mv) models \<Rightarrow> coord list \<Rightarrow> nat \<Rightarrow> kml_feature list \<Rightarrow> waypoint list \<Rightarrow>
   coord list \<times> kml_feature list"
where
  "waypoints_kml_loop M waypoints waypoint_num markers [] = (waypoints, markers)"
| "waypoints_kml_loop M waypoints waypoint_num markers (wpt # wpts) =
     (let gps = gps_position (position wpt);
          coord = Coord3 (longitude gps) (latitude gps) (altitude_msl (position wpt));
          wp = newpoint (str_nat waypoint_num) [coord];
          wp' = wp\<lparr>point_description := Some (str_waypoint M wpt),
                    point_altitudemode := Some Absolute,
                    point_extrude := Some 1,
                    point_visibility := Some False\<rparr>
      in waypoints_kml_loop M (waypoints @ [coord]) (waypoint_num + 1)
           (markers @ [Point wp']) wpts)"

text \<open>
  The loop over \<^verbatim>\<open>self.search_grid_points.all()\<close>: the state is the list
  \<^verbatim>\<open>search_area\<close>, the counter \<^verbatim>\<open>search_area_num\<close> and the markers of the folder.
\<close>

fun search_area_loop ::
  "('tp, 'fz, 'sv, 'mv) models \<Rightarrow> coord list \<Rightarrow> nat \<Rightarrow> kml_feature list \<Rightarrow> waypoint list \<Rightarrow>
   coord list \<times> kml_feature list"
where
  "search_area_loop M search_area search_area_num markers [] = (search_area, markers)"
| "search_area_loop M search_area search_area_num markers (pt # pts) =
     (let gps = gps_position (position pt);
          coord = Coord3 (longitude gps) (latitude gps) (altitude_msl (position pt));
          wp = newpoint (str_nat search_area_num) [coord];
          wp' = wp\<lparr>point_description := Some (str_waypoint M pt),
                    point_visibility := Some False\<rparr>
      in search_area_loop M (search_area @ [coord]) (search_area_num + 1)
           (markers @ [Point wp']) pts)"

text \<open>Python's \<^verbatim>\<open>xs[0]\<close>, which raises \<^verbatim>\<open>IndexError\<close> on the empty list.\<close>

definition index0 :: "'a list \<Rightarrow> py_error + 'a" where
  "index0 xs = (case xs of [] \<Rightarrow> Inl IndexError | x # _ \<Rightarrow> Inr x)"

text \<open>
  \<^verbatim>\<open>kml(self, kml)\<close> appends a folder to the container \<open>kml\<close> and fills it step
  by step. The result is the container as the method leaves it, and what the method
  did: it returned (\<open>Inr ()\<close>) or it raised. When \<^verbatim>\<open>search_area[0]\<close> raises, the
  folder holds what was added before: the polygon is there, without its boundary and
  without its style.
\<close>

definition kml ::
  "('tp, 'fz, 'sv, 'mv) models \<Rightarrow> mission_config \<Rightarrow> kml_feature list \<Rightarrow>
   kml_feature list \<times> (py_error + unit)"
where
  "kml M self container =
     (let mission_name = ''Mission '' @ str_nat (mission_pk self);
          static_points = map (static_point M) (locations self);
          (waypoints, waypoint_markers) =
            waypoints_kml_loop M [] 1 [] (mission_waypoints self);
          linestring = (newlinestring ''Waypoints'')
            \<lparr>linestring_coords := waypoints,
             linestring_altitudemode := Some Absolute,
             linestring_extrude := Some 1,
             linestring_linestyle_color := Some Black,
             linestring_polystyle_color := Some (Changealphaint 100 Green)\<rparr>;
          waypoints_folder = Folder ''Waypoints'' (Linestring linestring # waypoint_markers);
          pol = newpolygon ''Search Area'';
          (search_area, search_markers) =
            search_area_loop M [] 1 [] (search_grid_points self)
      in case index0 search_area of
           Inl e \<Rightarrow>
             (container @
                [Folder mission_name
                   (static_points @
                    [waypoints_folder, Folder ''Search Area'' (Polygon pol # search_markers)])],
              Inl e)
         | Inr first \<Rightarrow>
             let pol' = pol
                   \<lparr>polygon_outerboundaryis := search_area @ [first],
                    polygon_linestyle_color := Some Black,
                    polygon_linestyle_width := Some 2,
                    polygon_polystyle_color := Some (Changealphaint 50 Blue)\<rparr>
             in (container @
                   [Folder mission_name
                      (static_points @
                       [waypoints_folder,
                        Folder ''Search Area'' (Polygon pol' # search_markers)])],
                 Inr ()))"

text \<open>\<^verbatim>\<open>kml_all\<close>: every mission in turn; an exception ends the loop.\<close>

fun kml_all ::
  "('tp, 'fz, 'sv, 'mv) models \<Rightarrow> mission_config list \<Rightarrow> kml_feature list \<Rightarrow>
   kml_feature list \<times> (py_error + unit)"
where
  "kml_all M [] container = (container, Inr ())"
| "kml_all M (mission # missions) container =
     (case kml M mission container of
        (container', Inl e) \<Rightarrow> (container', Inl e)
      | (container', Inr _) \<Rightarrow> kml_all M missions container')"

subsection \<open>What the sibling models return without flight data\<close>

text \<open>
  Modelled from the spec: the methods \<^verbatim>\<open>by_time_period\<close>, \<^verbatim>\<open>dedupe\<close>, \<^verbatim>\<open>rates\<close>
  and \<^verbatim>\<open>evaluate_collision_with_uas\<close> are defined in other modules. The
  specification says of them: the telemetry comes as one sequence per flight period
  (so none for no period) and deduplication keeps that shape; a class with fewer than
  two events has undefined maximum and average rates; an obstacle collides when some
  telemetry sample lies inside it (so never for no sample). \<open>sparse_contract M u\<close>
  says that the parameters of \<open>M\<close> behave so for the user \<open>u\<close>.
\<close>

definition sparse_contract :: "('tp, 'fz, 'sv, 'mv) models \<Rightarrow> user \<Rightarrow> bool" where
  "sparse_contract M u \<longleftrightarrow>
     dedupe M (by_time_period M u []) = [] \<and>
     server_info_rates M u [] = (None, None) \<and>
     obstacle_rates M u [] = (None, None) \<and>
     uas_telemetry_rates M u [] [] = (None, None) \<and>
     list_all (\<lambda>obst. \<not> stationary_collision M obst []) (stationary_obstacles_all M) \<and>
     list_all (\<lambda>obst. \<not> moving_collision M obst []) (moving_obstacles_all M)"

subsection \<open>A small competition\<close>

text \<open>
  Concrete data on which the definitions above are evaluated: positions that differ in
  altitude only, with the difference of altitudes as distance; two waypoints of orders
  1 and 3, stored in descending order; an administrator, a team that flew two periods
  and a team that never flew. The time out of bounds of a list of logs is three
  quarters of the square of its length, and the sum of two numbers is rounded to the
  nearest half, so that neither the exact sum of the periods nor one call on all logs
  gives what the loop over the periods gives.
\<close>

definition pos_at :: "real \<Rightarrow> aerial_position" where
  "pos_at a = \<lparr>gps_position = \<lparr>latitude = 0, longitude = 0\<rparr>, altitude_msl = a\<rparr>"

definition wpt_low :: waypoint where
  "wpt_low = \<lparr>waypoint_pk = 7, position = pos_at 0, order = 1\<rparr>"

definition wpt_high :: waypoint where
  "wpt_high = \<lparr>waypoint_pk = 5, position = pos_at 100, order = 3\<rparr>"

definition wpt_mid :: waypoint where
  "wpt_mid = \<lparr>waypoint_pk = 6, position = pos_at 90, order = 2\<rparr>"

definition log_edge :: uas_telemetry where
  "log_edge = \<lparr>uas_telemetry_pk = 1, uas_position = pos_at 10, uas_heading = 0\<rparr>"

definition log_near :: uas_telemetry where
  "log_near = \<lparr>uas_telemetry_pk = 2, uas_position = pos_at 95, uas_heading = 0\<rparr>"

definition admin :: user where
  "admin = \<lparr>user_pk = 1, username = ''admin'', is_superuser = True\<rparr>"

definition team_flown :: user where
  "team_flown = \<lparr>user_pk = 2, username = ''flown'', is_superuser = False\<rparr>"

definition team_grounded :: user where
  "team_grounded = \<lparr>user_pk = 3, username = ''grounded'', is_superuser = False\<rparr>"

definition example_models :: "(nat, nat, unit, unit) models" where
  "example_models =
     \<lparr>distance_to = (\<lambda>a b. \<bar>altitude_msl a - altitude_msl b\<bar>),
      str_position = (\<lambda>p. ''position''),
      str_waypoint = (\<lambda>w. ''waypoint''),
      users_all = [admin, team_flown, team_grounded],
      fly_zones_all = [5],
      stationary_obstacles_all =
        [\<lparr>obstacle_pk = 2, obstacle_row = ()\<rparr>, \<lparr>obstacle_pk = 4, obstacle_row = ()\<rparr>],
      moving_obstacles_all = [\<lparr>obstacle_pk = 9, obstacle_row = ()\<rparr>],
      flights = (\<lambda>u. if user_pk u = 2 then [10, 20] else []),
      by_time_period = (\<lambda>u periods.
        map (\<lambda>p. if user_pk u = 2 then (if p = 10 then [log_edge, log_edge] else [log_near])
                  else []) periods),
      dedupe = map remdups_adj,
      out_of_bounds = (\<lambda>fly_zones logs. of_nat (length logs * length logs) * 3 / 4),
      server_info_rates = (\<lambda>u periods. if periods = [] then (None, None) else (Some 4, Some 2)),
      obstacle_rates = (\<lambda>u periods. if periods = [] then (None, None) else (Some 6, Some 3)),
      uas_telemetry_rates = (\<lambda>u periods period_logs.
        if concat period_logs = [] then (None, None)
        else (Some (of_nat (length (concat period_logs))), Some 1)),
      stationary_collision = (\<lambda>obst logs.
        list_ex (\<lambda>l. uas_telemetry_pk l = obstacle_pk obst) logs),
      moving_collision = (\<lambda>obst logs. False),
      float_add = (\<lambda>a b. of_int \<lfloor>(a + b) * 2 + 1 / 2\<rfloor> / 2)\<rparr>"

definition example_mission :: mission_config where
  "example_mission =
     \<lparr>mission_pk = 1, is_active = True,
      home_pos = \<lparr>latitude = 0, longitude = 0\<rparr>,
      mission_waypoints_dist_max = 10,
      mission_waypoints = [wpt_high, wpt_low],
      search_grid_points = [],
      emergent_last_known_pos = \<lparr>latitude = 0, longitude = 0\<rparr>,
      off_axis_target_pos = \<lparr>latitude = 0, longitude = 0\<rparr>,
      sric_pos = \<lparr>latitude = 0, longitude = 0\<rparr>,
      ir_primary_target_pos = \<lparr>latitude = 0, longitude = 0\<rparr>,
      ir_secondary_target_pos = \<lparr>latitude = 0, longitude = 0\<rparr>,
      air_drop_pos = \<lparr>latitude = 0, longitude = 0\<rparr>,
      server_info = 1\<rparr>"

section \<open>Properties\<close>

subsection \<open>Waypoint satisfaction\<close>

lemma waypoint_scan_iff:
  "waypoint_scan M dmax wp uas_logs \<longleftrightarrow>
     (\<exists>l \<in> set uas_logs. distance_to M (uas_position l) (position wp) < dmax)"
  by (induction uas_logs) auto

lemma waypoints_loop_map:
  "waypoints_loop M dmax uas_logs acc wps =
     acc @ map (\<lambda>wp. waypoint_scan M dmax wp uas_logs) wps"
  by (induction wps arbitrary: acc) auto

lemma satisfied_waypoints_map:
  "satisfied_waypoints M self uas_logs =
     map (\<lambda>wp. waypoint_scan M (mission_waypoints_dist_max self) wp uas_logs)
       (order_by_order (mission_waypoints self))"
  by (simp add: satisfied_waypoints_def waypoints_loop_map)

subsection \<open>The loops of \<^verbatim>\<open>evaluate_teams\<close>\<close>

lemma collisions_loop_map_of:
  "collisions_loop collide uas_logs m obsts =
     m ++ map_of (rev (map (\<lambda>obst. (obstacle_pk obst, collide obst uas_logs)) obsts))"
proof (induction obsts arbitrary: m)
  case Nil
  show ?case by simp
next
  case (Cons obst obsts)
  show ?case
    by (rule ext) (simp add: Cons.IH map_add_def split: option.split)
qed

lemma collisions_loop_idem:
  "collisions_loop collide uas_logs (collisions_loop collide uas_logs m obsts) obsts =
     collisions_loop collide uas_logs m obsts"
  by (rule ext) (simp add: collisions_loop_map_of map_add_def split: option.split)

lemma collisions_loop_dom:
  "dom (collisions_loop collide uas_logs m obsts) = dom m \<union> obstacle_pk ` set obsts"
  by (induction obsts arbitrary: m) auto

lemma collisions_loop_distinct:
  assumes "distinct (map obstacle_pk obsts)" and "obst \<in> set obsts"
  shows "collisions_loop collide uas_logs m obsts (obstacle_pk obst) = Some (collide obst uas_logs)"
  using assms
proof (induction obsts arbitrary: m)
  case Nil
  then show ?case by simp
next
  case (Cons a obsts)
  show ?case
  proof (cases "obst \<in> set obsts")
    case True
    with Cons show ?thesis by simp
  next
    case False
    with Cons.prems have eq: "obst = a" by simp
    from Cons.prems have "obstacle_pk a \<notin> obstacle_pk ` set obsts" by simp
    then have "map_of (rev (map (\<lambda>obst. (obstacle_pk obst, collide obst uas_logs)) obsts))
                 (obstacle_pk a) = None"
      by (simp add: map_of_eq_None_iff image_image)
    then show ?thesis
      by (simp add: eq collisions_loop_map_of map_add_def)
  qed
qed

lemma collisions_loop_outside:
  "k \<notin> obstacle_pk ` set obsts \<Longrightarrow> collisions_loop collide uas_logs m obsts k = m k"
  by (induction obsts arbitrary: m) auto

lemma waypoints_keyed_loop_lookup:
  "waypoints_keyed_loop m i hits k =
     (if i < k \<and> k \<le> i + int (length hits) then Some (hits ! nat (k - i - 1)) else m k)"
proof (induction hits arbitrary: m i)
  case Nil
  show ?case by auto
next
  case (Cons hit hits)
  consider "k \<le> i" | "k = i + 1" | "i + 1 < k" by linarith
  then show ?case
  proof cases
    case 1
    then show ?thesis unfolding waypoints_keyed_loop.simps Cons.IH by simp
  next
    case 2
    then show ?thesis unfolding waypoints_keyed_loop.simps Cons.IH by simp
  next
    case 3
    then have "nat (k - i - 1) = Suc (nat (k - (i + 1) - 1))" by simp
    with 3 show ?thesis unfolding waypoints_keyed_loop.simps Cons.IH by simp
  qed
qed

lemma out_of_bounds_loop_foldl:
  "out_of_bounds_loop M fly_zones t period_logs =
     foldl (float_add M) t (map (out_of_bounds M fly_zones) period_logs)"
  by (induction period_logs arbitrary: t) auto

lemma evaluate_user_idem:
  "evaluate_user M self u (evaluate_user M self u d) = evaluate_user M self u d"
  by (simp add: evaluate_user_def Let_def setdefault_def collisions_loop_idem)

lemma users_loop_lookup:
  "users_loop M self results us u =
     (if u \<in> set us \<and> \<not> is_superuser u
      then Some (evaluate_user M self u (setdefault (results u) empty_eval_data))
      else results u)"
proof (induction us arbitrary: results)
  case Nil
  show ?case by simp
next
  case (Cons a us)
  show ?case
    by (simp add: Cons.IH setdefault_def evaluate_user_idem)
qed

lemma evaluate_teams_lookup:
  "evaluate_teams M self u =
     (if u \<in> set (users_all M) \<and> \<not> is_superuser u
      then Some (evaluate_user M self u empty_eval_data) else None)"
  by (simp add: evaluate_teams_def users_loop_lookup setdefault_def)

lemma collisions_loop_const:
  "\<forall>obst \<in> set obsts. collide obst uas_logs = v \<Longrightarrow>
     collisions_loop collide uas_logs m obsts k =
       (if k \<in> obstacle_pk ` set obsts then Some v else m k)"
  by (induction obsts arbitrary: m) auto

lemma evaluate_teams_team:
  "u \<in> set (users_all M) \<Longrightarrow> \<not> is_superuser u \<Longrightarrow>
     evaluate_teams M self u = Some (evaluate_user M self u empty_eval_data)"
  by (simp add: evaluate_teams_lookup)

lemma evaluate_user_fields:
  "waypoints_satisfied (evaluate_user M self u empty_eval_data) =
     Some (waypoints_keyed_loop Map.empty 0
       (satisfied_waypoints M self (concat (dedupe M (by_time_period M u (flights M u))))))"
  "out_of_bounds_time (evaluate_user M self u empty_eval_data) =
     Some (out_of_bounds_loop M (fly_zones_all M) 0 (dedupe M (by_time_period M u (flights M u))))"
  "interop_times (evaluate_user M self u empty_eval_data) =
     Some [''server_info'' \<mapsto>
             \<lparr>rate_max = fst (server_info_rates M u (flights M u)),
              rate_avg = snd (server_info_rates M u (flights M u))\<rparr>,
           ''obst_info'' \<mapsto>
             \<lparr>rate_max = fst (obstacle_rates M u (flights M u)),
              rate_avg = snd (obstacle_rates M u (flights M u))\<rparr>,
           ''uas_telem'' \<mapsto>
             \<lparr>rate_max = fst (uas_telemetry_rates M u (flights M u)
                  (dedupe M (by_time_period M u (flights M u)))),
              rate_avg = snd (uas_telemetry_rates M u (flights M u)
                  (dedupe M (by_time_period M u (flights M u))))\<rparr>]"
  "stationary_obst_collision (evaluate_user M self u empty_eval_data) =
     Some (collisions_loop (stationary_collision M)
       (concat (dedupe M (by_time_period M u (flights M u)))) Map.empty
       (stationary_obstacles_all M))"
  "moving_obst_collision (evaluate_user M self u empty_eval_data) =
     Some (collisions_loop (moving_collision M)
       (concat (dedupe M (by_time_period M u (flights M u)))) Map.empty
       (moving_obstacles_all M))"
  by (simp_all add: evaluate_user_def Let_def setdefault_def empty_eval_data_def)

lemma waypoints_keyed_dom:
  "dom (waypoints_keyed_loop Map.empty 0 hits) = {1 .. int (length hits)}"
  by (auto simp add: waypoints_keyed_loop_lookup dom_def)

lemma length_satisfied_waypoints:
  "length (satisfied_waypoints M self logs) = length (mission_waypoints self)"
  by (simp add: satisfied_waypoints_map order_by_order_def)

lemma satisfied_waypoints_no_logs:
  "satisfied_waypoints M self [] = replicate (length (mission_waypoints self)) False"
  by (simp add: satisfied_waypoints_map map_replicate_const order_by_order_def)

lemma search_area_loop_fst:
  "fst (search_area_loop M search_area n markers pts) =
     search_area @
       map (\<lambda>pt. Coord3 (longitude (gps_position (position pt)))
                    (latitude (gps_position (position pt))) (altitude_msl (position pt))) pts"
  by (induction pts arbitrary: search_area n markers) (simp_all add: Let_def)

lemma kml_outcome:
  "snd (kml M self container) =
     (case index0 (fst (search_area_loop M [] 1 [] (search_grid_points self))) of
        Inl e \<Rightarrow> Inl e | Inr _ \<Rightarrow> Inr ())"
  by (simp add: kml_def Let_def split: prod.splits sum.splits)

subsection \<open>The claims\<close>

lemma order_by_order_example:
  "order_by_order (mission_waypoints example_mission) = [wpt_low, wpt_high]"
  by (simp add: order_by_order_def example_mission_def wpt_low_def wpt_high_def)

lemma example_simps:
  "team_flown \<in> set (users_all example_models)"
  "team_grounded \<in> set (users_all example_models)"
  "admin \<in> set (users_all example_models)"
  "\<not> is_superuser team_flown"
  "\<not> is_superuser team_grounded"
  "is_superuser admin"
  by (simp_all add: example_models_def team_flown_def team_grounded_def admin_def)

lemma example_logs:
  "flights example_models team_flown = [10, 20]"
  "dedupe example_models (by_time_period example_models team_flown [10, 20])
     = [[log_edge], [log_near]]"
  "flights example_models team_grounded = []"
  by (simp_all add: example_models_def team_flown_def team_grounded_def)

lemma example_hits:
  "satisfied_waypoints example_models example_mission [log_edge, log_near] = [False, True]"
  by (simp add: satisfied_waypoints_map order_by_order_example)
     (simp add: example_models_def example_mission_def wpt_low_def wpt_high_def
        log_edge_def log_near_def pos_at_def)

lemma order_by_order_contiguous:
  "order_by_order [wpt_mid, wpt_low] = [wpt_low, wpt_mid]"
  by (simp add: order_by_order_def wpt_low_def wpt_mid_def)

text \<open>
  Claim C1. \<^verbatim>\<open>satisfied_waypoints\<close> returns one boolean per mission waypoint, in
  ascending order of \<^verbatim>\<open>order\<close>; the boolean of a waypoint is true exactly when some
  log is at a distance strictly below \<^verbatim>\<open>mission_waypoints_dist_max\<close> from it. So a
  waypoint from which every log is at the threshold or farther is not satisfied, and
  without logs no waypoint is.
\<close>

theorem satisfied_waypoints_threshold:
  "satisfied_waypoints M self logs =
     map (\<lambda>wp. \<exists>l \<in> set logs.
            distance_to M (uas_position l) (position wp) < mission_waypoints_dist_max self)
       (order_by_order (mission_waypoints self))
   \<and> mset (order_by_order (mission_waypoints self)) = mset (mission_waypoints self)
   \<and> (\<forall>i < length (mission_waypoints self).
        (\<forall>l \<in> set logs.
           mission_waypoints_dist_max self \<le>
             distance_to M (uas_position l)
               (position (order_by_order (mission_waypoints self) ! i)))
        \<longrightarrow> satisfied_waypoints M self logs ! i = False)
   \<and> satisfied_waypoints M self [] = replicate (length (mission_waypoints self)) False"
proof -
  let ?wps = "order_by_order (mission_waypoints self)"
  have len: "length ?wps = length (mission_waypoints self)"
    by (simp add: order_by_order_def)
  have main: "satisfied_waypoints M self logs =
     map (\<lambda>wp. \<exists>l \<in> set logs.
            distance_to M (uas_position l) (position wp) < mission_waypoints_dist_max self) ?wps"
    by (simp add: satisfied_waypoints_map waypoint_scan_iff)
  have perm: "mset ?wps = mset (mission_waypoints self)"
    by (simp add: order_by_order_def)
  have edge: "\<forall>i < length (mission_waypoints self).
        (\<forall>l \<in> set logs.
           mission_waypoints_dist_max self \<le>
             distance_to M (uas_position l) (position (?wps ! i)))
        \<longrightarrow> satisfied_waypoints M self logs ! i = False"
    using len by (auto simp add: main)
  have none: "satisfied_waypoints M self [] = replicate (length (mission_waypoints self)) False"
    using len by (simp add: satisfied_waypoints_map map_replicate_const)
  from main perm edge none show ?thesis by blast
qed

text \<open>
  On the example: the only log is at distance 10 from the first waypoint, which is
  the threshold, and neither waypoint is satisfied.
\<close>

theorem satisfied_waypoints_threshold_witness:
  "(0::nat) < length (mission_waypoints example_mission)
   \<and> distance_to example_models (uas_position log_edge)
         (position (order_by_order (mission_waypoints example_mission) ! 0))
       = mission_waypoints_dist_max example_mission
   \<and> satisfied_waypoints example_models example_mission [log_edge] = [False, False]
   \<and> satisfied_waypoints example_models example_mission [log_edge] ! 0 = False"
  using satisfied_waypoints_threshold [of example_models example_mission "[log_edge]"]
  by (simp add: order_by_order_example)
     (simp add: example_models_def example_mission_def wpt_low_def wpt_high_def
        log_edge_def pos_at_def)

text \<open>
  Claim C2, as amended. For a user who is not an administrator, the keys of
  \<^verbatim>\<open>waypoints_satisfied\<close> are 1 to the number of mission waypoints; the key
  \<open>i + 1\<close> holds the satisfaction of the waypoint at index \<open>i\<close> in ascending order of
  \<^verbatim>\<open>order\<close>, against the user's flattened deduped logs. The key of a waypoint is its
  \<^verbatim>\<open>order\<close> when the orders of the mission are exactly 1 to the number of waypoints.
\<close>

theorem waypoints_satisfied_keyed_by_rank:
  assumes "u \<in> set (users_all M)" and "\<not> is_superuser u"
  shows "\<exists>r ws.
           evaluate_teams M self u = Some r \<and> waypoints_satisfied r = Some ws \<and>
           dom ws = {1 .. int (length (mission_waypoints self))} \<and>
           (\<forall>i < length (mission_waypoints self).
              ws (int i + 1) =
                Some (\<exists>l \<in> set (concat (dedupe M (by_time_period M u (flights M u)))).
                        distance_to M (uas_position l)
                          (position (order_by_order (mission_waypoints self) ! i))
                        < mission_waypoints_dist_max self)) \<and>
           (map order (order_by_order (mission_waypoints self)) =
              map (\<lambda>i. int i + 1) [0 ..< length (mission_waypoints self)] \<longrightarrow>
            (\<forall>wp \<in> set (mission_waypoints self).
               ws (order wp) =
                 Some (\<exists>l \<in> set (concat (dedupe M (by_time_period M u (flights M u)))).
                         distance_to M (uas_position l) (position wp)
                         < mission_waypoints_dist_max self)))"
proof -
  let ?logs = "concat (dedupe M (by_time_period M u (flights M u)))"
  let ?wps = "order_by_order (mission_waypoints self)"
  let ?n = "length (mission_waypoints self)"
  let ?sat = "\<lambda>wp. \<exists>l \<in> set ?logs.
                 distance_to M (uas_position l) (position wp) < mission_waypoints_dist_max self"
  let ?ws = "waypoints_keyed_loop Map.empty 0 (satisfied_waypoints M self ?logs)"
  have len: "length ?wps = ?n" by (simp add: order_by_order_def)
  have sw: "satisfied_waypoints M self ?logs = map ?sat ?wps"
    by (simp add: satisfied_waypoints_map waypoint_scan_iff)
  have r: "evaluate_teams M self u = Some (evaluate_user M self u empty_eval_data)"
    using assms by (rule evaluate_teams_team)
  have f: "waypoints_satisfied (evaluate_user M self u empty_eval_data) = Some ?ws"
    by (rule evaluate_user_fields)
  have d: "dom ?ws = {1 .. int ?n}"
    by (simp add: waypoints_keyed_dom length_satisfied_waypoints)
  have k: "?ws (int i + 1) = Some (?sat (?wps ! i))" if "i < ?n" for i
    using that len by (simp add: waypoints_keyed_loop_lookup sw)
  have c: "?ws (order wp) = Some (?sat wp)"
    if o: "map order ?wps = map (\<lambda>i. int i + 1) [0 ..< ?n]" and w: "wp \<in> set (mission_waypoints self)"
    for wp
  proof -
    from w have "wp \<in> set ?wps" by (simp add: order_by_order_def)
    then obtain i where i: "i < ?n" "?wps ! i = wp"
      using len by (auto simp add: in_set_conv_nth)
    from o have "map order ?wps ! i = map (\<lambda>i. int i + 1) [0 ..< ?n] ! i" by simp
    with i len have "order wp = int i + 1" by simp
    with k [OF i(1)] i(2) show ?thesis by simp
  qed
  from r f d k c show ?thesis by blast
qed

text \<open>On a mission whose waypoints have the orders 1 and 2.\<close>

theorem waypoints_satisfied_keyed_by_rank_witness:
  "team_flown \<in> set (users_all example_models) \<and> \<not> is_superuser team_flown
   \<and> map order (order_by_order
        (mission_waypoints (example_mission\<lparr>mission_waypoints := [wpt_mid, wpt_low]\<rparr>)))
       = map (\<lambda>i. int i + 1)
           [0 ..< length (mission_waypoints
                    (example_mission\<lparr>mission_waypoints := [wpt_mid, wpt_low]\<rparr>))]
   \<and> order wpt_low = 1 \<and> order wpt_mid = 2
   \<and> (\<exists>r ws.
         evaluate_teams example_models
           (example_mission\<lparr>mission_waypoints := [wpt_mid, wpt_low]\<rparr>) team_flown = Some r \<and>
         waypoints_satisfied r = Some ws \<and>
         ws (order wpt_low) = Some False \<and> ws (order wpt_mid) = Some True)"
proof -
  let ?m = "example_mission\<lparr>mission_waypoints := [wpt_mid, wpt_low]\<rparr>"
  have o: "map order (order_by_order (mission_waypoints ?m))
             = map (\<lambda>i. int i + 1) [0 ..< length (mission_waypoints ?m)]"
    by (simp add: order_by_order_contiguous) (simp add: wpt_low_def wpt_mid_def upt_rec)
  have v: "order wpt_low = 1" "order wpt_mid = 2"
    by (simp_all add: wpt_low_def wpt_mid_def)
  have d: "distance_to example_models (uas_position log_edge) (position wpt_low) = 10"
          "distance_to example_models (uas_position log_near) (position wpt_low) = 95"
          "distance_to example_models (uas_position log_edge) (position wpt_mid) = 80"
          "distance_to example_models (uas_position log_near) (position wpt_mid) = 5"
          "mission_waypoints_dist_max ?m = 10"
    by (simp_all add: example_models_def example_mission_def wpt_low_def wpt_mid_def
          log_edge_def log_near_def pos_at_def)
  from waypoints_satisfied_keyed_by_rank [of team_flown example_models ?m] o
  obtain r ws where
    "evaluate_teams example_models ?m team_flown = Some r" "waypoints_satisfied r = Some ws"
    "\<forall>wp \<in> set (mission_waypoints ?m).
       ws (order wp) =
         Some (\<exists>l \<in> set [log_edge, log_near].
                 distance_to example_models (uas_position l) (position wp)
                 < mission_waypoints_dist_max ?m)"
    by (auto simp add: example_simps example_logs)
  then have "evaluate_teams example_models ?m team_flown = Some r \<and>
             waypoints_satisfied r = Some ws \<and>
             ws (order wpt_low) = Some False \<and> ws (order wpt_mid) = Some True"
    by (simp add: d)
  then show ?thesis using o v by (simp only: example_simps) blast
qed

text \<open>
  Claim C2 as stated fails on the example mission, whose waypoints have the orders 1
  and 3: the map of the team that flew has no key 3, and the satisfaction of the
  waypoint of order 3 is under the key 2.
\<close>

theorem waypoints_satisfied_key_not_order:
  "wpt_high \<in> set (mission_waypoints example_mission) \<and> order wpt_high = 3
   \<and> team_flown \<in> dom (evaluate_teams example_models example_mission)
   \<and> the (waypoints_satisfied (the (evaluate_teams example_models example_mission team_flown)))
        (order wpt_high) = None
   \<and> the (waypoints_satisfied (the (evaluate_teams example_models example_mission team_flown)))
        2 = Some True"
proof -
  have r: "evaluate_teams example_models example_mission team_flown =
             Some (evaluate_user example_models example_mission team_flown empty_eval_data)"
    by (rule evaluate_teams_team) (simp_all add: example_simps)
  have w: "wpt_high \<in> set (mission_waypoints example_mission)" "order wpt_high = 3"
    by (simp_all add: example_mission_def wpt_high_def)
  show ?thesis
    by (simp add: r w dom_def evaluate_user_fields example_logs example_hits
          waypoints_keyed_loop_lookup)
qed

text \<open>
  Claim C3. No administrator is a key of the mapping that \<^verbatim>\<open>evaluate_teams\<close>
  returns, whatever the sibling models hold for that account.
\<close>

theorem evaluate_teams_skips_admin: "is_superuser u \<Longrightarrow> u \<notin> dom (evaluate_teams M self)"
  by (simp add: evaluate_teams_lookup dom_def)

theorem evaluate_teams_skips_admin_witness:
  "is_superuser admin \<and> admin \<in> set (users_all example_models)
   \<and> admin \<notin> dom (evaluate_teams example_models example_mission)"
  using evaluate_teams_skips_admin [of admin example_models example_mission]
  by (simp add: example_simps)

text \<open>
  Claim C4. Every user who is not an administrator is a key of the result, with all
  five entries of the evaluation record: the waypoint map with the keys 1 to the
  number of waypoints, the out of bounds time, the three interoperability classes, and
  a collision entry per obstacle. For a user without flight period, when the sibling
  models behave as \<open>sparse_contract\<close> says, the entries are the defaults: every
  waypoint unsatisfied, zero seconds out of bounds, no maximum and no average rate,
  no collision.
\<close>

theorem evaluate_teams_includes_every_team:
  assumes "u \<in> set (users_all M)" and "\<not> is_superuser u"
  shows "\<exists>r ws t it sc mc.
           evaluate_teams M self u = Some r \<and>
           waypoints_satisfied r = Some ws \<and>
           out_of_bounds_time r = Some t \<and>
           interop_times r = Some it \<and>
           stationary_obst_collision r = Some sc \<and>
           moving_obst_collision r = Some mc \<and>
           dom ws = {1 .. int (length (mission_waypoints self))} \<and>
           dom it = {''server_info'', ''obst_info'', ''uas_telem''} \<and>
           dom sc = obstacle_pk ` set (stationary_obstacles_all M) \<and>
           dom mc = obstacle_pk ` set (moving_obstacles_all M) \<and>
           (flights M u = [] \<and> sparse_contract M u \<longrightarrow>
              ws = (\<lambda>k. if k \<in> {1 .. int (length (mission_waypoints self))}
                         then Some False else None) \<and>
              t = 0 \<and>
              it = [''server_info'' \<mapsto> \<lparr>rate_max = None, rate_avg = None\<rparr>,
                    ''obst_info'' \<mapsto> \<lparr>rate_max = None, rate_avg = None\<rparr>,
                    ''uas_telem'' \<mapsto> \<lparr>rate_max = None, rate_avg = None\<rparr>] \<and>
              sc = (\<lambda>k. if k \<in> obstacle_pk ` set (stationary_obstacles_all M)
                         then Some False else None) \<and>
              mc = (\<lambda>k. if k \<in> obstacle_pk ` set (moving_obstacles_all M)
                         then Some False else None))"
proof -
  let ?r = "evaluate_user M self u empty_eval_data"
  let ?periods = "dedupe M (by_time_period M u (flights M u))"
  let ?ws = "waypoints_keyed_loop Map.empty 0 (satisfied_waypoints M self (concat ?periods))"
  let ?t = "out_of_bounds_loop M (fly_zones_all M) 0 ?periods"
  let ?sc = "collisions_loop (stationary_collision M) (concat ?periods) Map.empty
               (stationary_obstacles_all M)"
  let ?mc = "collisions_loop (moving_collision M) (concat ?periods) Map.empty
               (moving_obstacles_all M)"
  have r: "evaluate_teams M self u = Some ?r"
    using assms by (rule evaluate_teams_team)
  have f: "waypoints_satisfied ?r = Some ?ws" "out_of_bounds_time ?r = Some ?t"
          "stationary_obst_collision ?r = Some ?sc" "moving_obst_collision ?r = Some ?mc"
    by (rule evaluate_user_fields)+
  obtain it where it: "interop_times ?r = Some it"
      "it = [''server_info'' \<mapsto>
               \<lparr>rate_max = fst (server_info_rates M u (flights M u)),
                rate_avg = snd (server_info_rates M u (flights M u))\<rparr>,
             ''obst_info'' \<mapsto>
               \<lparr>rate_max = fst (obstacle_rates M u (flights M u)),
                rate_avg = snd (obstacle_rates M u (flights M u))\<rparr>,
             ''uas_telem'' \<mapsto>
               \<lparr>rate_max = fst (uas_telemetry_rates M u (flights M u) ?periods),
                rate_avg = snd (uas_telemetry_rates M u (flights M u) ?periods)\<rparr>]"
    by (simp add: evaluate_user_fields)
  have dws: "dom ?ws = {1 .. int (length (mission_waypoints self))}"
    by (simp add: waypoints_keyed_dom length_satisfied_waypoints)
  have dit: "dom it = {''server_info'', ''obst_info'', ''uas_telem''}"
    by (auto simp add: it(2))
  have dsc: "dom ?sc = obstacle_pk ` set (stationary_obstacles_all M)"
    and dmc: "dom ?mc = obstacle_pk ` set (moving_obstacles_all M)"
    by (simp_all add: collisions_loop_dom)
  have sparse:
    "flights M u = [] \<and> sparse_contract M u \<longrightarrow>
     ?ws = (\<lambda>k. if k \<in> {1 .. int (length (mission_waypoints self))} then Some False else None)
     \<and> ?t = 0
     \<and> it = [''server_info'' \<mapsto> \<lparr>rate_max = None, rate_avg = None\<rparr>,
             ''obst_info'' \<mapsto> \<lparr>rate_max = None, rate_avg = None\<rparr>,
             ''uas_telem'' \<mapsto> \<lparr>rate_max = None, rate_avg = None\<rparr>]
     \<and> ?sc = (\<lambda>k. if k \<in> obstacle_pk ` set (stationary_obstacles_all M)
                   then Some False else None)
     \<and> ?mc = (\<lambda>k. if k \<in> obstacle_pk ` set (moving_obstacles_all M)
                   then Some False else None)"
  proof (intro impI, elim conjE)
    assume nf: "flights M u = []" and sp: "sparse_contract M u"

    from nf sp have p: "?periods = []" by (simp add: sparse_contract_def)
    from sp have rates: "server_info_rates M u [] = (None, None)"
      "obstacle_rates M u [] = (None, None)" "uas_telemetry_rates M u [] [] = (None, None)"
      by (simp_all add: sparse_contract_def)
    from sp have ns: "\<forall>obst \<in> set (stationary_obstacles_all M).
                        stationary_collision M obst [] = False"
      and nm: "\<forall>obst \<in> set (moving_obstacles_all M). moving_collision M obst [] = False"
      by (simp_all add: sparse_contract_def list_all_iff)
    have 1: "?ws = (\<lambda>k. if k \<in> {1 .. int (length (mission_waypoints self))}
                         then Some False else None)"
      by (rule ext)
         (auto simp add: p waypoints_keyed_loop_lookup satisfied_waypoints_no_logs)
    have 2: "?t = 0" by (simp add: p)
    have 3: "it = [''server_info'' \<mapsto> \<lparr>rate_max = None, rate_avg = None\<rparr>,
             ''obst_info'' \<mapsto> \<lparr>rate_max = None, rate_avg = None\<rparr>,
             ''uas_telem'' \<mapsto> \<lparr>rate_max = None, rate_avg = None\<rparr>]"
      using p by (simp add: it(2) nf rates)
    have 4: "?sc = (\<lambda>k. if k \<in> obstacle_pk ` set (stationary_obstacles_all M)
                   then Some False else None)"
      using ns
      by (intro ext) (simp add: p collisions_loop_const [where v = False])
    have 5: "?mc = (\<lambda>k. if k \<in> obstacle_pk ` set (moving_obstacles_all M)
                   then Some False else None)"
      using nm
      by (intro ext) (simp add: p collisions_loop_const [where v = False])
    show "?ws = (\<lambda>k. if k \<in> {1 .. int (length (mission_waypoints self))}
                      then Some False else None)
     \<and> ?t = 0
     \<and> it = [''server_info'' \<mapsto> \<lparr>rate_max = None, rate_avg = None\<rparr>,
             ''obst_info'' \<mapsto> \<lparr>rate_max = None, rate_avg = None\<rparr>,
             ''uas_telem'' \<mapsto> \<lparr>rate_max = None, rate_avg = None\<rparr>]
     \<and> ?sc = (\<lambda>k. if k \<in> obstacle_pk ` set (stationary_obstacles_all M)
                   then Some False else None)
     \<and> ?mc = (\<lambda>k. if k \<in> obstacle_pk ` set (moving_obstacles_all M)
                   then Some False else None)"
      by (intro conjI) (rule 1 2 3 4 5)+
  qed
  show ?thesis
    by (intro exI conjI) (rule r f it(1) dws dit dsc dmc sparse)+
qed

theorem evaluate_teams_includes_every_team_witness:
  "team_grounded \<in> set (users_all example_models) \<and> \<not> is_superuser team_grounded
   \<and> flights example_models team_grounded = []
   \<and> sparse_contract example_models team_grounded
   \<and> (\<exists>r ws it sc mc.
         evaluate_teams example_models example_mission team_grounded = Some r \<and>
         waypoints_satisfied r = Some ws \<and>
         out_of_bounds_time r = Some 0 \<and>
         interop_times r = Some it \<and>
         stationary_obst_collision r = Some sc \<and>
         moving_obst_collision r = Some mc \<and>
         ws 1 = Some False \<and> ws 2 = Some False \<and>
         it ''server_info'' = Some \<lparr>rate_max = None, rate_avg = None\<rparr> \<and>
         it ''obst_info'' = Some \<lparr>rate_max = None, rate_avg = None\<rparr> \<and>
         it ''uas_telem'' = Some \<lparr>rate_max = None, rate_avg = None\<rparr> \<and>
         sc 2 = Some False \<and> sc 4 = Some False \<and> mc 9 = Some False)"
proof -
  have u: "team_grounded \<in> set (users_all example_models)" "\<not> is_superuser team_grounded"
    by (simp_all add: example_simps)
  have nf: "flights example_models team_grounded = []"
    by (simp add: example_logs)
  have sp: "sparse_contract example_models team_grounded"
    by (simp add: sparse_contract_def example_models_def)
  have n: "length (mission_waypoints example_mission) = 2"
          "obstacle_pk ` set (stationary_obstacles_all example_models) = {2, 4}"
          "obstacle_pk ` set (moving_obstacles_all example_models) = {9}"
    by (simp_all add: example_mission_def example_models_def)
  from evaluate_teams_includes_every_team [OF u, of example_mission]
  obtain r ws t it sc mc where
    r: "evaluate_teams example_models example_mission team_grounded = Some r" and
    f: "waypoints_satisfied r = Some ws" "out_of_bounds_time r = Some t"
       "interop_times r = Some it" "stationary_obst_collision r = Some sc"
       "moving_obst_collision r = Some mc" and
    d: "flights example_models team_grounded = [] \<and>
        sparse_contract example_models team_grounded \<longrightarrow>
          ws = (\<lambda>k. if k \<in> {1 .. int (length (mission_waypoints example_mission))}
                     then Some False else None) \<and>
          t = 0 \<and>
          it = [''server_info'' \<mapsto> \<lparr>rate_max = None, rate_avg = None\<rparr>,
                ''obst_info'' \<mapsto> \<lparr>rate_max = None, rate_avg = None\<rparr>,
                ''uas_telem'' \<mapsto> \<lparr>rate_max = None, rate_avg = None\<rparr>] \<and>
          sc = (\<lambda>k. if k \<in> obstacle_pk ` set (stationary_obstacles_all example_models)
                     then Some False else None) \<and>
          mc = (\<lambda>k. if k \<in> obstacle_pk ` set (moving_obstacles_all example_models)
                     then Some False else None)"
    by (elim exE conjE) (rule that; assumption)
  from d nf sp have
    e0: "ws = (\<lambda>k. if k \<in> {1 .. int (length (mission_waypoints example_mission))}
                   then Some False else None)
       \<and> t = 0
       \<and> it = [''server_info'' \<mapsto> \<lparr>rate_max = None, rate_avg = None\<rparr>,
              ''obst_info'' \<mapsto> \<lparr>rate_max = None, rate_avg = None\<rparr>,
              ''uas_telem'' \<mapsto> \<lparr>rate_max = None, rate_avg = None\<rparr>]
       \<and> sc = (\<lambda>k. if k \<in> obstacle_pk ` set (stationary_obstacles_all example_models)
                   then Some False else None)
       \<and> mc = (\<lambda>k. if k \<in> obstacle_pk ` set (moving_obstacles_all example_models)
                   then Some False else None)"
    by (rule mp [OF _ conjI])
  note e = e0 [THEN conjunct1] e0 [THEN conjunct2, THEN conjunct1]
    e0 [THEN conjunct2, THEN conjunct2, THEN conjunct1]
    e0 [THEN conjunct2, THEN conjunct2, THEN conjunct2, THEN conjunct1]
    e0 [THEN conjunct2, THEN conjunct2, THEN conjunct2, THEN conjunct2]
  have v: "ws 1 = Some False" "ws 2 = Some False"
          "it ''server_info'' = Some \<lparr>rate_max = None, rate_avg = None\<rparr>"
          "it ''obst_info'' = Some \<lparr>rate_max = None, rate_avg = None\<rparr>"
          "it ''uas_telem'' = Some \<lparr>rate_max = None, rate_avg = None\<rparr>"
          "sc 2 = Some False" "sc 4 = Some False" "mc 9 = Some False"
    by (simp_all add: e n)
  from f(2) e(2) have t: "out_of_bounds_time r = Some 0" by simp
  show ?thesis
    by (intro conjI exI) (rule u nf sp r f(1) t f(3-5) v)+
qed

text \<open>
  Claim C5. The out of bounds time of a user is the sum over the user's flight periods
  of \<^verbatim>\<open>FlyZone.out_of_bounds\<close> of the deduped logs of that period alone: the total
  that starts at 0 and takes one term per period, in the order of the periods, each
  added with Python's addition of floats. Nothing but these terms enters the total.
\<close>

theorem out_of_bounds_time_sum_of_periods:
  assumes "u \<in> set (users_all M)" and "\<not> is_superuser u"
  shows "\<exists>r. evaluate_teams M self u = Some r \<and>
           out_of_bounds_time r =
             Some (foldl (float_add M) 0
                     (map (out_of_bounds M (fly_zones_all M))
                        (dedupe M (by_time_period M u (flights M u)))))"
  using assms
  by (simp add: evaluate_teams_team evaluate_user_fields out_of_bounds_loop_foldl)

text \<open>
  On the example the team flew two periods with one deduped log each: each period
  gives 3/4, and the total is 2. The exact sum of the two terms is 3/2, and one call
  on the two logs together gives 3.
\<close>

theorem out_of_bounds_time_sum_of_periods_witness:
  "team_flown \<in> set (users_all example_models) \<and> \<not> is_superuser team_flown
   \<and> dedupe example_models
        (by_time_period example_models team_flown (flights example_models team_flown))
       = [[log_edge], [log_near]]
   \<and> out_of_bounds example_models (fly_zones_all example_models) [log_edge] = 3 / 4
   \<and> out_of_bounds example_models (fly_zones_all example_models) [log_near] = 3 / 4
   \<and> out_of_bounds example_models (fly_zones_all example_models) [log_edge, log_near] = 3
   \<and> (\<exists>r. evaluate_teams example_models example_mission team_flown = Some r \<and>
           out_of_bounds_time r = Some 2)"
proof -
  have v: "out_of_bounds example_models (fly_zones_all example_models) [log_edge] = 3 / 4"
       "out_of_bounds example_models (fly_zones_all example_models) [log_near] = 3 / 4"
       "out_of_bounds example_models (fly_zones_all example_models) [log_edge, log_near] = 3"
    by (simp_all add: example_models_def)
  have a: "float_add example_models 0 (3 / 4) = 1" "float_add example_models 1 (3 / 4) = 2"
    by (simp_all add: example_models_def)
  from out_of_bounds_time_sum_of_periods [of team_flown example_models example_mission]
  show ?thesis by (simp add: example_simps example_logs v a)
qed

text \<open>
  Claim C6. With the primary keys of each obstacle table distinct, the two collision
  maps of a user have one key per obstacle, its primary key, and the value is the
  obstacle's own \<^verbatim>\<open>evaluate_collision_with_uas\<close> on the concatenation of the user's
  deduped logs of all periods: the same list for every obstacle.
\<close>

theorem collisions_on_flattened_logs:
  assumes "u \<in> set (users_all M)" and "\<not> is_superuser u"
    and "distinct (map obstacle_pk (stationary_obstacles_all M))"
    and "distinct (map obstacle_pk (moving_obstacles_all M))"
  shows "\<exists>r sc mc.
           evaluate_teams M self u = Some r \<and>
           stationary_obst_collision r = Some sc \<and>
           moving_obst_collision r = Some mc \<and>
           dom sc = obstacle_pk ` set (stationary_obstacles_all M) \<and>
           dom mc = obstacle_pk ` set (moving_obstacles_all M) \<and>
           (\<forall>obst \<in> set (stationary_obstacles_all M).
              sc (obstacle_pk obst) =
                Some (stationary_collision M obst
                        (concat (dedupe M (by_time_period M u (flights M u)))))) \<and>
           (\<forall>obst \<in> set (moving_obstacles_all M).
              mc (obstacle_pk obst) =
                Some (moving_collision M obst
                        (concat (dedupe M (by_time_period M u (flights M u))))))"
  using assms
  by (simp add: evaluate_teams_team evaluate_user_fields collisions_loop_dom
        collisions_loop_distinct)

theorem collisions_on_flattened_logs_witness:
  "team_flown \<in> set (users_all example_models) \<and> \<not> is_superuser team_flown
   \<and> distinct (map obstacle_pk (stationary_obstacles_all example_models))
   \<and> distinct (map obstacle_pk (moving_obstacles_all example_models))
   \<and> (\<exists>r sc mc.
         evaluate_teams example_models example_mission team_flown = Some r \<and>
         stationary_obst_collision r = Some sc \<and>
         moving_obst_collision r = Some mc \<and>
         sc 2 = Some True \<and> sc 4 = Some False \<and> mc 9 = Some False)"
proof -
  have d: "distinct (map obstacle_pk (stationary_obstacles_all example_models))"
          "distinct (map obstacle_pk (moving_obstacles_all example_models))"
    by (simp_all add: example_models_def)
  have v: "stationary_obstacles_all example_models =
             [\<lparr>obstacle_pk = 2, obstacle_row = ()\<rparr>, \<lparr>obstacle_pk = 4, obstacle_row = ()\<rparr>]"
          "moving_obstacles_all example_models = [\<lparr>obstacle_pk = 9, obstacle_row = ()\<rparr>]"
          "stationary_collision example_models \<lparr>obstacle_pk = 2, obstacle_row = ()\<rparr>
             [log_edge, log_near] = True"
          "stationary_collision example_models \<lparr>obstacle_pk = 4, obstacle_row = ()\<rparr>
             [log_edge, log_near] = False"
          "moving_collision example_models \<lparr>obstacle_pk = 9, obstacle_row = ()\<rparr>
             [log_edge, log_near] = False"
    by (simp_all add: example_models_def log_edge_def log_near_def)
  from collisions_on_flattened_logs [of team_flown example_models example_mission] d
  obtain r sc mc where
    "evaluate_teams example_models example_mission team_flown = Some r"
    "stationary_obst_collision r = Some sc" "moving_obst_collision r = Some mc"
    "\<forall>obst \<in> set (stationary_obstacles_all example_models).
        sc (obstacle_pk obst) =
          Some (stationary_collision example_models obst [log_edge, log_near])"
    "\<forall>obst \<in> set (moving_obstacles_all example_models).
        mc (obstacle_pk obst) =
          Some (moving_collision example_models obst [log_edge, log_near])"
    by (auto simp add: example_simps example_logs)
  then show ?thesis using d by (simp add: v example_simps)
qed

text \<open>
  Claim C7. The entry \<^verbatim>\<open>uas_telem\<close> of \<^verbatim>\<open>interop_times\<close> comes from
  \<^verbatim>\<open>UasTelemetry.rates\<close>, called with the deduped logs per period as
  \<^verbatim>\<open>time_period_logs\<close>; \<^verbatim>\<open>server_info\<close> and \<^verbatim>\<open>obst_info\<close> come from the
  \<^verbatim>\<open>rates\<close> of their access logs, called with the user and the flight periods. In
  each, \<^verbatim>\<open>max\<close> is the first and \<^verbatim>\<open>avg\<close> the second component of the result.
\<close>

theorem interop_times_sources:
  assumes "u \<in> set (users_all M)" and "\<not> is_superuser u"
  shows "\<exists>r it.
           evaluate_teams M self u = Some r \<and> interop_times r = Some it \<and>
           dom it = {''server_info'', ''obst_info'', ''uas_telem''} \<and>
           it ''uas_telem'' =
             Some \<lparr>rate_max = fst (uas_telemetry_rates M u (flights M u)
                                     (dedupe M (by_time_period M u (flights M u)))),
                   rate_avg = snd (uas_telemetry_rates M u (flights M u)
                                     (dedupe M (by_time_period M u (flights M u))))\<rparr> \<and>
           it ''server_info'' =
             Some \<lparr>rate_max = fst (server_info_rates M u (flights M u)),
                   rate_avg = snd (server_info_rates M u (flights M u))\<rparr> \<and>
           it ''obst_info'' =
             Some \<lparr>rate_max = fst (obstacle_rates M u (flights M u)),
                   rate_avg = snd (obstacle_rates M u (flights M u))\<rparr>"
  using assms
  by (auto simp add: evaluate_teams_team evaluate_user_fields)

theorem interop_times_sources_witness:
  "team_flown \<in> set (users_all example_models) \<and> \<not> is_superuser team_flown
   \<and> (\<exists>r it.
         evaluate_teams example_models example_mission team_flown = Some r \<and>
         interop_times r = Some it \<and>
         it ''uas_telem'' = Some \<lparr>rate_max = Some 2, rate_avg = Some 1\<rparr> \<and>
         it ''server_info'' = Some \<lparr>rate_max = Some 4, rate_avg = Some 2\<rparr> \<and>
         it ''obst_info'' = Some \<lparr>rate_max = Some 6, rate_avg = Some 3\<rparr>)"
proof -
  have v: "uas_telemetry_rates example_models team_flown [10, 20] [[log_edge], [log_near]]
             = (Some 2, Some 1)"
          "server_info_rates example_models team_flown [10, 20] = (Some 4, Some 2)"
          "obstacle_rates example_models team_flown [10, 20] = (Some 6, Some 3)"
    by (simp_all add: example_models_def)
  from interop_times_sources [of team_flown example_models example_mission]
  show ?thesis by (auto simp add: example_simps example_logs v)
qed

text \<open>
  Claim C8. The mapping that \<^verbatim>\<open>evaluate_teams\<close> returns is a function of the
  inputs, and it does not depend on the order in which the users are evaluated: any
  permutation of \<^verbatim>\<open>User.objects.all()\<close> gives the same mapping.
\<close>

theorem evaluate_teams_user_order:
  "mset us = mset (users_all M) \<Longrightarrow>
     evaluate_teams (M\<lparr>users_all := us\<rparr>) self = evaluate_teams M self"
proof (rule ext)
  fix u
  assume "mset us = mset (users_all M)"
  then have s: "set us = set (users_all M)" by (rule mset_eq_setD)
  have e: "evaluate_user (M\<lparr>users_all := us\<rparr>) self u empty_eval_data =
           evaluate_user M self u empty_eval_data"
    by (simp add: evaluate_user_def Let_def satisfied_waypoints_map waypoint_scan_iff
          out_of_bounds_loop_foldl)
  show "evaluate_teams (M\<lparr>users_all := us\<rparr>) self u = evaluate_teams M self u"
    by (simp add: evaluate_teams_lookup s e)
qed

theorem evaluate_teams_user_order_witness:
  "mset [team_grounded, team_flown, admin] = mset (users_all example_models)
   \<and> evaluate_teams (example_models\<lparr>users_all := [team_grounded, team_flown, admin]\<rparr>)
        example_mission
     = evaluate_teams example_models example_mission"
proof -
  have m: "mset [team_grounded, team_flown, admin] = mset (users_all example_models)"
    by (simp add: example_models_def)
  from evaluate_teams_user_order [OF m] m show ?thesis by simp
qed

text \<open>
  Claim C9. \<^verbatim>\<open>satisfied_waypoints\<close> returns the same list for a list of logs and
  for any permutation of it.
\<close>

theorem satisfied_waypoints_permutation:
  "mset logs' = mset logs \<Longrightarrow>
     satisfied_waypoints M self logs' = satisfied_waypoints M self logs"
proof -
  assume "mset logs' = mset logs"
  then have "set logs' = set logs" by (rule mset_eq_setD)
  then show ?thesis by (simp add: satisfied_waypoints_map waypoint_scan_iff)
qed

theorem satisfied_waypoints_permutation_witness:
  "mset [log_near, log_edge] = mset [log_edge, log_near]
   \<and> satisfied_waypoints example_models example_mission [log_near, log_edge]
     = satisfied_waypoints example_models example_mission [log_edge, log_near]"
  using satisfied_waypoints_permutation
    [of "[log_near, log_edge]" "[log_edge, log_near]" example_models example_mission]
  by simp

text \<open>
  Claim C10. \<^verbatim>\<open>kml\<close> raises \<^verbatim>\<open>IndexError\<close> exactly when the mission has no search
  grid point: \<^verbatim>\<open>search_area[0]\<close> is read after the loop, whatever the loop added.
\<close>

theorem kml_empty_search_grid_raises:
  "snd (kml M self container) = Inl IndexError \<longleftrightarrow> search_grid_points self = []"
  by (auto simp add: kml_outcome search_area_loop_fst index0_def split: list.splits)

theorem kml_empty_search_grid_raises_witness:
  "search_grid_points example_mission = []
   \<and> snd (kml example_models example_mission []) = Inl IndexError"
  using kml_empty_search_grid_raises [of example_models example_mission "[]"]
  by (simp add: example_mission_def)

end
